theory Spec2Isabelle
  imports Main
begin

section \<open>Data access repositories of geniepy (datamgmt/repositories.py)\<close>

text \<open>
  The module wraps two external libraries: SQLAlchemy (\<open>create_engine\<close>,
  \<open>Table.create\<close>, \<open>Table.drop\<close>) and pandas (\<open>DataFrame.to_sql\<close>,
  \<open>read_sql\<close>, \<open>read_sql_query\<close>). The repository classes are embedded over
  a record of these library calls, so that what the module itself does (which call it
  makes, with which arguments, and what it does with an exception) is stated for every
  backend. What the library calls do in turn is not in the module. The loop by which
  pandas cuts a result into chunks is given after the classes, and a small in-memory
  backend gives the examples their concrete runs.
\<close>

subsection \<open>Schemas\<close>

datatype coltype = Integer | Float | String

text \<open>\<open>Column(name, type, primary_key=..., nullable=...)\<close>; \<open>nullable\<close> defaults
  to \<open>True\<close> for a column that is no primary key.\<close>

record Column =
  col_name :: string
  col_type :: coltype
  primary_key :: bool
  nullable :: bool

text \<open>\<open>Table(name, MetaData(), columns...)\<close>.\<close>

record Table =
  tbl_name :: string
  tbl_columns :: "Column list"

definition mk_column :: "string \<Rightarrow> coltype \<Rightarrow> bool \<Rightarrow> Column" where
  "mk_column n t nl = \<lparr>col_name = n, col_type = t, primary_key = False, nullable = nl\<rparr>"

definition CTD_TABLE_NAME :: string where
  "CTD_TABLE_NAME = ''ctd''"

definition CTD_DAO_TABLE :: Table where
  "CTD_DAO_TABLE = \<lparr>tbl_name = CTD_TABLE_NAME, tbl_columns =
     [mk_column ''digest'' String False,
      mk_column ''genesymbol'' String True,
      mk_column ''geneid'' Integer False,
      mk_column ''diseasename'' String True,
      mk_column ''diseaseid'' String False,
      mk_column ''pmids'' String False]\<rparr>"



definition CLSFR_TABLE_NAME :: string where
  "CLSFR_TABLE_NAME = ''classifier''"

definition CLSFR_DAO_TABLE :: Table where
  "CLSFR_DAO_TABLE = \<lparr>tbl_name = CLSFR_TABLE_NAME, tbl_columns =
     [mk_column ''digest'' String False,
      mk_column ''pub_score'' Float False,
      mk_column ''ct_score'' Float False]\<rparr>"

subsection \<open>Record sets and exceptions\<close>

text \<open>A pandas \<open>DataFrame\<close>: column labels and rows of cells, a cell being a value of
  type \<open>'v\<close> or missing (\<open>None\<close>: NaN, \<open>None\<close>, SQL NULL).\<close>

record 'v DataFrame =
  df_columns :: "string list"
  df_rows :: "'v option list list"

text \<open>
  Modelled from the spec: \<open>DaoError\<close>, the class that the module imports from
  \<open>geniepy.errors\<close> and that is not among the sources (the specification's
  \<open>StorageError\<close>, which wraps the backend's failure). It is an exception constructed
  from the exception it wraps, as \<open>raise DaoError(sql_exp)\<close> uses it.

  The other exceptions that reach a caller: \<open>OperationalError\<close>, \<open>IntegrityError\<close>,
  \<open>ArgumentError\<close>, \<open>ValueError\<close> and \<open>OverflowError\<close> are raised by the
  libraries and the driver (each with its message), \<open>NotImplementedError\<close> is Python's.
  All of them are instances of \<open>Exception\<close>, which is what \<open>except Exception\<close>
  catches.
\<close>

datatype exc =
    OperationalError string
  | IntegrityError string
  | ArgumentError string
  | ValueError string
  | OverflowError string
  | NotImplementedError
  | DaoError exc

subsection \<open>The library calls\<close>

text \<open>
  The backend: the library calls of the module, over a backend state \<open>'s\<close> (the
  databases), engines \<open>'eng\<close> and result generators \<open>'g\<close>. A call returns the
  exception it raises (\<open>Inl\<close>) or its result, and the state it leaves behind in
  either case.
  \<^item> \<open>create_engine db_loc\<close>
  \<^item> \<open>table_create table engine\<close>: \<open>table.create(engine)\<close>
  \<^item> \<open>table_drop table engine\<close>: \<open>table.drop(engine)\<close>
  \<^item> \<open>to_sql payload name engine\<close>:
    \<open>payload.to_sql(name, con=engine, if_exists="append", index=False, method="multi")\<close>
  \<^item> \<open>read_sql name engine chunksize\<close>: \<open>pd.read_sql(name, con=engine, chunksize=chunksize)\<close>
  \<^item> \<open>read_sql_query query engine chunksize\<close>:
    \<open>pd.read_sql_query(query, engine, chunksize=chunksize)\<close>
\<close>

record ('eng, 's, 'v, 'g) backend =
  create_engine :: "string \<Rightarrow> exc + 'eng"
  table_create :: "Table \<Rightarrow> 'eng \<Rightarrow> 's \<Rightarrow> (exc + unit) \<times> 's"
  table_drop :: "Table \<Rightarrow> 'eng \<Rightarrow> 's \<Rightarrow> (exc + unit) \<times> 's"
  to_sql :: "'v DataFrame \<Rightarrow> string \<Rightarrow> 'eng \<Rightarrow> 's \<Rightarrow> (exc + unit) \<times> 's"
  read_sql :: "string \<Rightarrow> 'eng \<Rightarrow> nat \<Rightarrow> 's \<Rightarrow> (exc + 'g) \<times> 's"
  read_sql_query :: "string \<Rightarrow> 'eng \<Rightarrow> nat \<Rightarrow> 's \<Rightarrow> (exc + 'g) \<times> 's"

subsection \<open>BaseRepository\<close>

text \<open>The slots \<open>_table\<close> and \<open>_tablename\<close> of the base class; the subclasses
  extend them.\<close>

record BaseRepository =
  slot_tablename :: string
  slot_table :: Table

definition tablename :: "'a BaseRepository_scheme \<Rightarrow> string" where
  "tablename self = slot_tablename self"

subsection \<open>SqlRepository\<close>

record 'eng SqlRepository = BaseRepository +
  slot_engine :: 'eng

text \<open>\<open>__init__\<close>: an exception of \<open>create_engine\<close> or of \<open>table.create\<close> leaves
  the constructor, and no instance is returned.\<close>

definition SqlRepository_init ::
  "('eng, 's, 'v, 'g) backend \<Rightarrow> string \<Rightarrow> string \<Rightarrow> Table \<Rightarrow> 's
     \<Rightarrow> (exc + 'eng SqlRepository) \<times> 's" where
  "SqlRepository_init be db_loc tablename_arg table s =
     (case create_engine be db_loc of
        Inl e \<Rightarrow> (Inl e, s)
      | Inr engine \<Rightarrow>
          (case table_create be table engine s of
             (Inl e, s') \<Rightarrow> (Inl e, s')
           | (Inr _, s') \<Rightarrow>
               (Inr \<lparr>slot_tablename = tablename_arg, slot_table = table,
                     slot_engine = engine\<rparr>, s')))"

text \<open>The methods return what they raise or return, the instance as they leave it, and
  the backend state.\<close>

definition SqlRepository_save ::
  "('eng, 's, 'v, 'g) backend \<Rightarrow> 'eng SqlRepository \<Rightarrow> 'v DataFrame \<Rightarrow> 's
     \<Rightarrow> (exc + unit) \<times> 'eng SqlRepository \<times> 's" where
  "SqlRepository_save be self payload s =
     (case to_sql be payload (slot_tablename self) (slot_engine self) s of
        (Inl sql_exp, s') \<Rightarrow> (Inl (DaoError sql_exp), self, s')
      | (Inr _, s') \<Rightarrow> (Inr (), self, s'))"

definition SqlRepository_delete_all ::
  "('eng, 's, 'v, 'g) backend \<Rightarrow> 'eng SqlRepository \<Rightarrow> 's
     \<Rightarrow> (exc + unit) \<times> 'eng SqlRepository \<times> 's" where
  "SqlRepository_delete_all be self s =
     (case table_drop be (slot_table self) (slot_engine self) s of
        (Inl e, s') \<Rightarrow> (Inl e, self, s')
      | (Inr _, s') \<Rightarrow>
          (case table_create be (slot_table self) (slot_engine self) s' of
             (Inl e, s'') \<Rightarrow> (Inl e, self, s'')
           | (Inr _, s'') \<Rightarrow> (Inr (), self, s'')))"

text \<open>\<open>query\<close>: the filter is \<open>None\<close> or a query string; the chunk size is passed on
  (its default, \<open>geniepy.CHUNKSIZE\<close>, is the caller's to supply here).\<close>

definition SqlRepository_query ::
  "('eng, 's, 'v, 'g) backend \<Rightarrow> 'eng SqlRepository \<Rightarrow> string option \<Rightarrow> nat \<Rightarrow> 's
     \<Rightarrow> (exc + 'g) \<times> 'eng SqlRepository \<times> 's" where
  "SqlRepository_query be self query chunksize s =
     (case query of
        None \<Rightarrow>
          (case read_sql be (slot_tablename self) (slot_engine self) chunksize s of
             (r, s') \<Rightarrow> (r, self, s'))
      | Some q \<Rightarrow>
          (case read_sql_query be q (slot_engine self) chunksize s of
             (generator, s') \<Rightarrow> (generator, self, s')))"

subsection \<open>GbqRepository\<close>

text \<open>The slots \<open>_proj\<close> and \<open>_credentials\<close>; a slot that was never assigned is
  \<open>None\<close>.\<close>

record 'c GbqRepository = BaseRepository +
  slot_proj :: "string option"
  slot_credentials :: "'c option"

text \<open>\<open>__init__\<close> assigns \<open>_tablename\<close>, \<open>_table\<close> and \<open>_proj\<close>; the lines that
  load the credentials and set the \<open>pandas_gbq\<close> context are comments. The state
  \<open>'s\<close> is everything outside the instance (the warehouse, the \<open>pandas_gbq\<close>
  context, the file system).\<close>

definition GbqRepository_init ::
  "string \<Rightarrow> string \<Rightarrow> Table \<Rightarrow> string \<Rightarrow> 's \<Rightarrow> (exc + 'c GbqRepository) \<times> 's" where
  "GbqRepository_init db_loc tablename_arg table credentials_path s =
     (Inr \<lparr>slot_tablename = tablename_arg, slot_table = table,
           slot_proj = Some db_loc, slot_credentials = None\<rparr>, s)"

definition GbqRepository_save ::
  "'c GbqRepository \<Rightarrow> 'v DataFrame \<Rightarrow> 's \<Rightarrow> (exc + unit) \<times> 'c GbqRepository \<times> 's" where
  "GbqRepository_save self payload s = (Inl NotImplementedError, self, s)"

definition GbqRepository_delete_all ::
  "'c GbqRepository \<Rightarrow> 's \<Rightarrow> (exc + unit) \<times> 'c GbqRepository \<times> 's" where
  "GbqRepository_delete_all self s = (Inl NotImplementedError, self, s)"

definition GbqRepository_query ::
  "'c GbqRepository \<Rightarrow> string option \<Rightarrow> nat \<Rightarrow> 's
     \<Rightarrow> (exc + 'g) \<times> 'c GbqRepository \<times> 's" where
  "GbqRepository_query self query chunksize s = (Inl NotImplementedError, self, s)"

section \<open>The chunk loop of pandas\<close>

text \<open>
  The module has no chunking of its own: \<open>query\<close> hands the chunk size to pandas and
  hands back the generator pandas returns. What that generator does is pandas' loop over
  the cursor of the database driver,
  \<^verbatim>\<open>
  has_read_data = False          # from pandas 1.3 on
  while True:
      data = result.fetchmany(chunksize)
      if not data:
          if not has_read_data:  # from pandas 1.3 on
              yield DataFrame.from_records([], columns=columns, ...)
          break
      else:
          has_read_data = True
          yield DataFrame.from_records(data, columns=columns, ...)
  \<close>
  The sources pin no pandas version, so the loop takes the version as a parameter
  (\<open>newer\<close>: pandas 1.3 or later).
\<close>

text \<open>\<open>cursor.fetchmany(n)\<close> of the SQLite driver, on the rows the cursor has not
  returned yet: \<open>n\<close> is converted to a C int, which fails from \<open>2 ^ 31\<close> on;
  \<open>n = 0\<close> returns every row left; otherwise at most \<open>n\<close> rows are returned.\<close>

definition fetchmany :: "nat \<Rightarrow> 'a list \<Rightarrow> exc + 'a list" where
  "fetchmany n result =
     (if 2 ^ 31 \<le> n then Inl (OverflowError ''Python int too large to convert to C int'')
      else if n = 0 then Inr result
      else Inr (take n result))"

text \<open>The generator, consumed to its end: the chunks of rows it yields, and the exception
  it raises instead of stopping, if any.\<close>

function query_iterator :: "bool \<Rightarrow> bool \<Rightarrow> nat \<Rightarrow> 'a list \<Rightarrow> 'a list list \<times> exc option" where
  "query_iterator newer has_read_data chunksize result =
     (case fetchmany chunksize result of
        Inl e \<Rightarrow> ([], Some e)
      | Inr data \<Rightarrow>
          if data = []
          then (if newer \<and> \<not> has_read_data then ([[]], None) else ([], None))
          else
            (case query_iterator newer True chunksize (drop (length data) result) of
               (chunks, e) \<Rightarrow> (data # chunks, e)))"
  by pat_completeness auto
termination
  by (relation "measure (\<lambda>(newer, has_read_data, chunksize, result). length result)")
     (auto simp: fetchmany_def split: if_splits)

declare query_iterator.simps [simp del]



section \<open>A small backend for the examples\<close>

text \<open>
  An in-memory relational store that the examples run on: a database at every location,
  a database being a finite map from table names to stored tables. It follows SQLite
  under SQLAlchemy and pandas on the inputs of the examples and is no model of them
  beyond that. It leaves out, among other things: the type affinity of columns and the
  range of integers (cells are stored as they are given), primary keys, the matching of
  column names without regard to case, record sets with a label twice, locks held by
  open cursors, faults of the connection, the conversion of columns by pandas on reading,
  the empty frame that pandas 1.3 yields for an empty result, and an in-memory location
  being a database of its own for every engine. The properties of the repository below
  are stated for every backend; this one gives their examples concrete runs.
\<close>

record 'v stored =
  st_columns :: "(string \<times> bool) list"
  st_rows :: "'v option list list"

type_synonym 'v database = "string \<rightharpoonup> 'v stored"

type_synonym 'v world = "string \<Rightarrow> 'v database"

definition schema_columns :: "Table \<Rightarrow> (string \<times> bool) list" where
  "schema_columns table = map (\<lambda>c. (col_name c, nullable c)) (tbl_columns table)"

text \<open>\<open>create_engine\<close> parses the URL and connects lazily: an SQLite URL gives an
  engine for the location, anything else is refused here.\<close>

definition sqlite_create_engine :: "string \<Rightarrow> exc + string" where
  "sqlite_create_engine db_loc =
     (if db_loc = ''sqlite://'' \<or> take 10 db_loc = ''sqlite:///''
      then Inr db_loc
      else Inl (ArgumentError ''Could not parse URL from string''))"

text \<open>\<open>Table.create(bind, checkfirst=False)\<close>: the module passes no
  \<open>checkfirst\<close>, so a plain CREATE TABLE is issued, which fails on a table that
  exists.\<close>

definition sqlite_table_create ::
  "Table \<Rightarrow> string \<Rightarrow> 'v world \<Rightarrow> (exc + unit) \<times> 'v world" where
  "sqlite_table_create table loc w =
     (case w loc (tbl_name table) of
        Some _ \<Rightarrow> (Inl (OperationalError ''table already exists''), w)
      | None \<Rightarrow>
          (Inr (), w(loc := (w loc)(tbl_name table \<mapsto>
             \<lparr>st_columns = schema_columns table, st_rows = []\<rparr>))))"

text \<open>\<open>Table.drop(bind, checkfirst=False)\<close>: a plain DROP TABLE, which fails on a
  table that does not exist.\<close>

definition sqlite_table_drop ::
  "Table \<Rightarrow> string \<Rightarrow> 'v world \<Rightarrow> (exc + unit) \<times> 'v world" where
  "sqlite_table_drop table loc w =
     (case w loc (tbl_name table) of
        None \<Rightarrow> (Inl (OperationalError ''no such table''), w)
      | Some _ \<Rightarrow> (Inr (), w(loc := (w loc)(tbl_name table := None))))"

text \<open>The row an INSERT that names the frame's columns stores: the cell of each table
  column, NULL for a column the frame does not have.\<close>

definition align_row :: "string list \<Rightarrow> string list \<Rightarrow> 'v option list \<Rightarrow> 'v option list" where
  "align_row tcols fcols row =
     map (\<lambda>c. case map_of (zip fcols row) c of None \<Rightarrow> None | Some cell \<Rightarrow> cell) tcols"

definition violates_not_null :: "(string \<times> bool) list \<Rightarrow> 'v option list \<Rightarrow> bool" where
  "violates_not_null cols row =
     list_ex (\<lambda>(c, cell). \<not> snd c \<and> cell = None) (zip cols row)"

text \<open>The number of bound values SQLite accepts in one statement (since SQLite 3.32;
  999 before).\<close>

definition SQLITE_MAX_VARIABLE_NUMBER :: nat where
  "SQLITE_MAX_VARIABLE_NUMBER = 32766"

text \<open>
  The insert of \<open>to_sql\<close> with \<open>method="multi"\<close> and no chunk size: a frame without
  rows issues no statement; otherwise one multi-row INSERT naming the frame's columns,
  with one bound value for every cell, runs in a transaction. It fails, and nothing is
  written, when it has too many bound values, on a column the table does not have, and
  on NULL in a NOT NULL column.
\<close>

definition insert_rows ::
  "'v DataFrame \<Rightarrow> 'v stored \<Rightarrow> exc + 'v stored" where
  "insert_rows frame t =
     (if df_rows frame = [] then Inr t
      else if SQLITE_MAX_VARIABLE_NUMBER < length (df_rows frame) * length (df_columns frame)
      then Inl (OperationalError ''too many SQL variables'')
      else if list_ex (\<lambda>c. c \<notin> set (map fst (st_columns t))) (df_columns frame)
      then Inl (OperationalError ''table has no such column'')
      else
        (let new = map (align_row (map fst (st_columns t)) (df_columns frame))
                       (df_rows frame)
         in if list_ex (violates_not_null (st_columns t)) new
            then Inl (IntegrityError ''NOT NULL constraint failed'')
            else Inr (t\<lparr>st_rows := st_rows t @ new\<rparr>)))"

text \<open>
  \<open>DataFrame.to_sql(name, if_exists="append", index=False, method="multi")\<close>: where
  no table of that name exists, one is created from the frame (every column nullable),
  and stays when the insert that follows fails; then the rows are inserted.
\<close>

definition sqlite_to_sql ::
  "'v DataFrame \<Rightarrow> string \<Rightarrow> string \<Rightarrow> 'v world \<Rightarrow> (exc + unit) \<times> 'v world" where
  "sqlite_to_sql frame name loc w =
     (let t = (case w loc name of
                 None \<Rightarrow> \<lparr>st_columns = map (\<lambda>c. (c, True)) (df_columns frame), st_rows = []\<rparr>
               | Some t \<Rightarrow> t)
      in case insert_rows frame t of
           Inl e \<Rightarrow> (Inl e, w(loc := (w loc)(name \<mapsto> t)))
         | Inr t' \<Rightarrow> (Inr (), w(loc := (w loc)(name \<mapsto> t'))))"

text \<open>The generator pandas returns, consumed to its end: the frames it yields, and the
  exception it raises instead of stopping, if any.\<close>

datatype 'v generator =
  Generator (yielded: "'v DataFrame list") (raised: "exc option")

definition generator_of :: "string list \<Rightarrow> nat \<Rightarrow> 'v option list list \<Rightarrow> 'v generator" where
  "generator_of cols chunksize result =
     (case query_iterator False False chunksize result of
        (chunks, e) \<Rightarrow>
          Generator (map (\<lambda>data. \<lparr>df_columns = cols, df_rows = data\<rparr>) chunks) e)"

text \<open>\<open>pd.read_sql(name, con, chunksize)\<close> on a table name: a generator over the rows
  of the table in insertion order, by the loop of pandas 1.0; on a name that is no table
  the name is run as a query, which fails.\<close>

definition sqlite_read_sql ::
  "string \<Rightarrow> string \<Rightarrow> nat \<Rightarrow> 'v world \<Rightarrow> (exc + 'v generator) \<times> 'v world" where
  "sqlite_read_sql name loc chunksize w =
     (case w loc name of
        None \<Rightarrow> (Inl (OperationalError ''syntax error''), w)
      | Some t \<Rightarrow> (Inr (generator_of (map fst (st_columns t)) chunksize (st_rows t)), w))"

text \<open>\<open>pd.read_sql_query(query, con, chunksize)\<close>: the meaning of a query string is
  the database's, a parameter \<open>run\<close> here.\<close>

definition sqlite_read_sql_query ::
  "(string \<Rightarrow> 'v database \<Rightarrow> exc + 'v DataFrame) \<Rightarrow> string \<Rightarrow> string \<Rightarrow> nat \<Rightarrow> 'v world
     \<Rightarrow> (exc + 'v generator) \<times> 'v world" where
  "sqlite_read_sql_query run q loc chunksize w =
     (case run q (w loc) of
        Inl e \<Rightarrow> (Inl e, w)
      | Inr res \<Rightarrow> (Inr (generator_of (df_columns res) chunksize (df_rows res)), w))"

definition sqlite ::
  "(string \<Rightarrow> 'v database \<Rightarrow> exc + 'v DataFrame)
     \<Rightarrow> (string, 'v world, 'v, 'v generator) backend" where
  "sqlite run =
     \<lparr>create_engine = sqlite_create_engine,
      table_create = sqlite_table_create,
      table_drop = sqlite_table_drop,
      to_sql = sqlite_to_sql,
      read_sql = sqlite_read_sql,
      read_sql_query = sqlite_read_sql_query run\<rparr>"

text \<open>A query evaluator that knows no query.\<close>

definition no_queries :: "string \<Rightarrow> 'v database \<Rightarrow> exc + 'v DataFrame" where
  "no_queries q db = Inl (OperationalError ''syntax error'')"




text \<open>The values of the examples: integers and strings. A value is of a column's type
  when it is a 64-bit integer in an \<open>Integer\<close> column or a string in a \<open>String\<close>
  column (the examples have no \<open>Float\<close> column).\<close>

datatype scalar = IntV int | StrV string

fun conforms :: "coltype \<Rightarrow> scalar \<Rightarrow> bool" where
  "conforms Integer (IntV i) = (- (2 ^ 63) \<le> i \<and> i < 2 ^ 63)"
| "conforms String (StrV s) = True"
| "conforms _ _ = False"

text \<open>A record set matches a schema when its columns are the schema's, name by name and
  in order, every row has a cell for every column, every value is of its column's type,
  and no cell of a column that is not nullable is missing.\<close>

definition valid_cell :: "Column \<times> scalar option \<Rightarrow> bool" where
  "valid_cell p =
     (case snd p of None \<Rightarrow> nullable (fst p) | Some v \<Rightarrow> conforms (col_type (fst p)) v)"

definition valid_for :: "Table \<Rightarrow> scalar DataFrame \<Rightarrow> bool" where
  "valid_for table frame \<longleftrightarrow>
     distinct (df_columns frame) \<and>
     df_columns frame = map col_name (tbl_columns table) \<and>
     list_all (\<lambda>row. length row = length (tbl_columns table) \<and>
                     list_all valid_cell (zip (tbl_columns table) row))
       (df_rows frame)"

text \<open>Two instances have the same table name and the same schema object.\<close>

definition same_name_and_schema ::
  "'a BaseRepository_scheme \<Rightarrow> 'b BaseRepository_scheme \<Rightarrow> bool" where
  "same_name_and_schema a b \<longleftrightarrow> tablename a = tablename b \<and> slot_table a = slot_table b"

subsection \<open>Examples\<close>

text \<open>A store without tables, the repository of the CTD table at an in-memory
  location, and the store its construction leaves.\<close>

definition empty_world :: "scalar world" where
  "empty_world = (\<lambda>loc. Map.empty)"

definition ctd_repo :: "string SqlRepository" where
  "ctd_repo = \<lparr>slot_tablename = CTD_TABLE_NAME, slot_table = CTD_DAO_TABLE,
     slot_engine = ''sqlite://''\<rparr>"

definition ctd_world :: "scalar world" where
  "ctd_world = empty_world(''sqlite://'' :=
     [CTD_TABLE_NAME \<mapsto> \<lparr>st_columns = schema_columns CTD_DAO_TABLE, st_rows = []\<rparr>])"

text \<open>Three rows for the CTD table, the first and the last equal, and the store whose
  CTD table holds them.\<close>

definition ctd_rows :: "scalar DataFrame" where
  "ctd_rows = \<lparr>df_columns =
       [''digest'', ''genesymbol'', ''geneid'', ''diseasename'', ''diseaseid'', ''pmids''],
     df_rows =
       [[Some (StrV ''d1''), Some (StrV ''G1''), Some (IntV 1), None,
         Some (StrV ''D1''), Some (StrV ''100'')],
        [Some (StrV ''d2''), None, Some (IntV 2), Some (StrV ''flu''),
         Some (StrV ''D2''), Some (StrV ''200'')],
        [Some (StrV ''d1''), Some (StrV ''G1''), Some (IntV 1), None,
         Some (StrV ''D1''), Some (StrV ''100'')]]\<rparr>"



text \<open>A record set with a column that the CTD schema does not have.\<close>

definition stray_rows :: "scalar DataFrame" where
  "stray_rows = \<lparr>df_columns = [''digest'', ''score''],
     df_rows = [[Some (StrV ''d1''), Some (IntV 7)]]\<rparr>"


text \<open>A repository constructed with the table name \<open>foo\<close> and the CTD schema, whose
  own name is \<open>ctd\<close>; the store after it saved three rows, and after \<open>delete_all\<close>.\<close>

definition foo_repo :: "string SqlRepository" where
  "foo_repo = \<lparr>slot_tablename = ''foo'', slot_table = CTD_DAO_TABLE,
     slot_engine = ''sqlite://''\<rparr>"

definition foo_saved :: "scalar world" where
  "foo_saved = snd (snd (SqlRepository_save (sqlite no_queries) foo_repo ctd_rows ctd_world))"

definition foo_deleted :: "scalar world" where
  "foo_deleted = snd (snd (SqlRepository_delete_all (sqlite no_queries) foo_repo foo_saved))"




section \<open>What the methods do, for every backend\<close>

lemma DaoError_neq: "DaoError e \<noteq> e"
  by (induction e) auto

lemma save_cases:
  "(SqlRepository_save be self payload s = (Inl x, self', s')) \<longleftrightarrow>
     (self' = self \<and>
      (\<exists>e. x = DaoError e \<and>
           to_sql be payload (slot_tablename self) (slot_engine self) s = (Inl e, s')))"
  by (auto simp: SqlRepository_save_def split: prod.splits sum.splits)


lemma delete_all_cases:
  "(SqlRepository_delete_all be self s = (Inl e, self', s')) \<longleftrightarrow>
     (self' = self \<and>
      (table_drop be (slot_table self) (slot_engine self) s = (Inl e, s') \<or>
       (\<exists>s1. table_drop be (slot_table self) (slot_engine self) s = (Inr (), s1) \<and>
             table_create be (slot_table self) (slot_engine self) s1 = (Inl e, s'))))"
  by (auto simp: SqlRepository_delete_all_def split: prod.splits sum.splits)

lemma delete_all_ok:
  "(SqlRepository_delete_all be self s = (Inr u, self', s')) \<longleftrightarrow>
     (self' = self \<and>
       (\<exists>s1. table_drop be (slot_table self) (slot_engine self) s = (Inr (), s1) \<and>
             table_create be (slot_table self) (slot_engine self) s1 = (Inr (), s')))"
  by (auto simp: SqlRepository_delete_all_def split: prod.splits sum.splits)

lemma query_None:
  "(SqlRepository_query be self None k s = (r, self', s')) \<longleftrightarrow>
     (self' = self \<and> read_sql be (slot_tablename self) (slot_engine self) k s = (r, s'))"
  by (auto simp: SqlRepository_query_def split: prod.splits)

lemma query_Some:
  "(SqlRepository_query be self (Some q) k s = (r, self', s')) \<longleftrightarrow>
     (self' = self \<and> read_sql_query be q (slot_engine self) k s = (r, s'))"
  by (auto simp: SqlRepository_query_def split: prod.splits)

lemma init_cases:
  "SqlRepository_init be db_loc n table s = (Inr self, s') \<Longrightarrow>
     slot_tablename self = n \<and> slot_table self = table"
  by (auto simp: SqlRepository_init_def split: prod.splits sum.splits)

lemma self_save: "fst (snd (SqlRepository_save be self payload s)) = self"
  by (simp add: SqlRepository_save_def split: prod.splits sum.splits)

lemma self_delete_all: "fst (snd (SqlRepository_delete_all be self s)) = self"
  by (simp add: SqlRepository_delete_all_def split: prod.splits sum.splits)

lemma self_query: "fst (snd (SqlRepository_query be self query k s)) = self"
  by (simp add: SqlRepository_query_def split: prod.splits option.splits)




lemma delete_all_ignores_tablename:
  "fst (SqlRepository_delete_all be (self\<lparr>slot_tablename := n\<rparr>) s)
     = fst (SqlRepository_delete_all be self s) \<and>
   snd (snd (SqlRepository_delete_all be (self\<lparr>slot_tablename := n\<rparr>) s))
     = snd (snd (SqlRepository_delete_all be self s))"
  by (simp add: SqlRepository_delete_all_def split: prod.splits sum.splits)

section \<open>Chunks\<close>








section \<open>The loop of pandas\<close>









section \<open>The examples, evaluated\<close>

lemma sqlite_fields:
  "create_engine (sqlite run) = sqlite_create_engine"
  "table_create (sqlite run) = sqlite_table_create"
  "table_drop (sqlite run) = sqlite_table_drop"
  "to_sql (sqlite run) = sqlite_to_sql"
  "read_sql (sqlite run) = sqlite_read_sql"
  "read_sql_query (sqlite run) = sqlite_read_sql_query run"
  by (simp_all add: sqlite_def)

lemma CTD_DAO_TABLE_name: "tbl_name CTD_DAO_TABLE = CTD_TABLE_NAME"
  by (simp add: CTD_DAO_TABLE_def)

lemma CTD_columns:
  "schema_columns CTD_DAO_TABLE =
     [(''digest'', False), (''genesymbol'', True), (''geneid'', False),
      (''diseasename'', True), (''diseaseid'', False), (''pmids'', False)]"
  by (simp add: schema_columns_def CTD_DAO_TABLE_def mk_column_def)

lemma init_ctd:
  "SqlRepository_init (sqlite no_queries) ''sqlite://'' CTD_TABLE_NAME CTD_DAO_TABLE empty_world
     = (Inr ctd_repo, ctd_world)"
  by (simp add: SqlRepository_init_def sqlite_def sqlite_create_engine_def
      sqlite_table_create_def empty_world_def ctd_world_def ctd_repo_def CTD_DAO_TABLE_name)

lemma ctd_world_table:
  "ctd_world ''sqlite://'' CTD_TABLE_NAME =
     Some \<lparr>st_columns = schema_columns CTD_DAO_TABLE, st_rows = []\<rparr>"
  by (simp add: ctd_world_def)

lemma ctd_world_update:
  "ctd_world(''sqlite://'' := (ctd_world ''sqlite://'')(CTD_TABLE_NAME \<mapsto> t)) =
     empty_world(''sqlite://'' := [CTD_TABLE_NAME \<mapsto> t])"
  by (simp add: ctd_world_def)

lemma stray_to_sql:
  "to_sql (sqlite no_queries) stray_rows (slot_tablename ctd_repo) (slot_engine ctd_repo)
      ctd_world = (Inl (OperationalError ''table has no such column''), ctd_world)"
proof -
  have "insert_rows stray_rows
      \<lparr>st_columns = schema_columns CTD_DAO_TABLE, st_rows = []\<rparr>
      = Inl (OperationalError ''table has no such column'')"
    by (simp add: insert_rows_def stray_rows_def CTD_columns SQLITE_MAX_VARIABLE_NUMBER_def)
  then show ?thesis
    by (simp add: sqlite_fields sqlite_to_sql_def ctd_repo_def ctd_world_table
        ctd_world_update)
       (simp add: ctd_world_def)
qed







lemma ctd_rows_valid: "valid_for (slot_table ctd_repo) ctd_rows"
  by (simp add: valid_for_def valid_cell_def ctd_rows_def CTD_DAO_TABLE_def mk_column_def
      ctd_repo_def)




lemma foo_init:
  "SqlRepository_init (sqlite no_queries) ''sqlite://'' ''foo'' CTD_DAO_TABLE empty_world
     = (Inr foo_repo, ctd_world)"
  by (simp add: SqlRepository_init_def sqlite_fields sqlite_create_engine_def
      sqlite_table_create_def empty_world_def ctd_world_def foo_repo_def CTD_DAO_TABLE_name)

lemma foo_insert:
  "insert_rows ctd_rows
      \<lparr>st_columns = map (\<lambda>c. (c, True)) (df_columns ctd_rows), st_rows = []\<rparr>
     = Inr \<lparr>st_columns = map (\<lambda>c. (c, True)) (df_columns ctd_rows),
            st_rows = df_rows ctd_rows\<rparr>"
  by (simp add: insert_rows_def ctd_rows_def SQLITE_MAX_VARIABLE_NUMBER_def
      align_row_def violates_not_null_def Let_def)

lemma foo_save:
  "SqlRepository_save (sqlite no_queries) foo_repo ctd_rows ctd_world =
     (Inr (), foo_repo, ctd_world(''sqlite://'' := (ctd_world ''sqlite://'')(''foo'' \<mapsto>
        \<lparr>st_columns = map (\<lambda>c. (c, True)) (df_columns ctd_rows),
         st_rows = df_rows ctd_rows\<rparr>)))"
proof -
  have "ctd_world ''sqlite://'' ''foo'' = None"
    by (simp add: ctd_world_def empty_world_def CTD_TABLE_NAME_def)
  then show ?thesis
    by (simp add: SqlRepository_save_def sqlite_fields sqlite_to_sql_def foo_repo_def
        foo_insert)
qed

lemma foo_delete_all:
  "SqlRepository_delete_all (sqlite no_queries) foo_repo foo_saved = (Inr (), foo_repo, foo_saved)"
  by (simp add: foo_saved_def foo_save)
     (simp add: SqlRepository_delete_all_def sqlite_fields sqlite_table_drop_def
      sqlite_table_create_def foo_repo_def ctd_world_def empty_world_def CTD_DAO_TABLE_name
      CTD_TABLE_NAME_def fun_eq_iff)

lemma foo_iterator:
  "query_iterator False False 10 (df_rows ctd_rows) = ([df_rows ctd_rows], None)"
  by (simp add: query_iterator.simps fetchmany_def ctd_rows_def)

lemma foo_saved_table:
  "foo_saved ''sqlite://'' ''foo'' =
     Some \<lparr>st_columns = map (\<lambda>c. (c, True)) (df_columns ctd_rows),
            st_rows = df_rows ctd_rows\<rparr>"
  by (simp add: foo_saved_def foo_save)

lemma nullable_labels: "map (fst \<circ> (\<lambda>c. (c, True))) cols = cols"
  by (simp add: comp_def)

lemma foo_query:
  "SqlRepository_query (sqlite no_queries) foo_repo None 10 foo_saved
     = (Inr (Generator [ctd_rows] None), foo_repo, foo_saved)"
  by (simp add: SqlRepository_query_def sqlite_fields sqlite_read_sql_def foo_repo_def
      foo_saved_table generator_of_def foo_iterator nullable_labels)






section \<open>Properties\<close>







text \<open>
  C3. The property fails on the code. \<open>__init__\<close> and \<open>delete_all\<close> create and drop
  the table named by the schema object, while \<open>save\<close> and \<open>query\<close> address the
  table called \<open>tablename\<close>, and the constructor takes the two names separately. A
  repository constructed with the table name \<open>foo\<close> and the CTD schema (named
  \<open>ctd\<close>) saves three rows; \<open>delete_all\<close> returns; and \<open>query()\<close> still yields
  the three rows, where the claim, and the docstring of \<open>delete_all\<close>, have none.
\<close>

theorem delete_all_misses_saved_rows:
  "SqlRepository_init (sqlite no_queries) ''sqlite://'' ''foo'' CTD_DAO_TABLE empty_world
     = (Inr foo_repo, ctd_world) \<and>
   fst (SqlRepository_save (sqlite no_queries) foo_repo ctd_rows ctd_world) = Inr () \<and>
   fst (SqlRepository_delete_all (sqlite no_queries) foo_repo foo_saved) = Inr () \<and>
   fst (SqlRepository_query (sqlite no_queries) foo_repo None 10 foo_deleted)
     = Inr (Generator [ctd_rows] None)"
proof -
  have "foo_deleted = foo_saved" by (simp add: foo_deleted_def foo_delete_all)
  then show ?thesis by (simp add: foo_init foo_save foo_delete_all foo_query)
qed

text \<open>
  C4. For every backend, payload and state: \<open>save\<close> raises \<open>x\<close> exactly when the
  backend write \<open>to_sql\<close> raises some \<open>e\<close> and \<open>x\<close> is \<open>DaoError e\<close>, the
  \<open>DaoError\<close> constructed from the backend's exception. So every failure of the write
  reaches the caller as a \<open>DaoError\<close> that carries it, and \<open>save\<close> raises nothing
  else.
\<close>

theorem save_raises_only_DaoError:
  "(SqlRepository_save be self payload s = (Inl x, self', s')) \<longleftrightarrow>
     (self' = self \<and>
      (\<exists>e. x = DaoError e \<and>
           to_sql be payload (slot_tablename self) (slot_engine self) s = (Inl e, s')))"
  by (rule save_cases)

theorem save_raises_only_DaoError_witness:
  "SqlRepository_save (sqlite no_queries) ctd_repo stray_rows ctd_world =
     (Inl (DaoError (OperationalError ''table has no such column'')), ctd_repo, ctd_world)"
  using save_raises_only_DaoError [of "sqlite no_queries" ctd_repo stray_rows ctd_world
      "DaoError (OperationalError ''table has no such column'')" ctd_repo ctd_world]
    stray_to_sql
  by simp

text \<open>
  C5. On the warehouse repository, \<open>save\<close>, \<open>delete_all\<close> and \<open>query\<close> raise
  \<open>NotImplementedError\<close> on every invocation, whatever the instance, the arguments
  and the state; the instance and the state outside it are left as they were, so no
  call returns silently and none succeeds in part.
\<close>

theorem gbq_operations_unsupported:
  "GbqRepository_save self payload s = (Inl NotImplementedError, self, s) \<and>
   GbqRepository_delete_all self s = (Inl NotImplementedError, self, s) \<and>
   GbqRepository_query self query chunksize s = (Inl NotImplementedError, self, s)"
  by (simp add: GbqRepository_save_def GbqRepository_delete_all_def GbqRepository_query_def)




text \<open>
  C7. For every backend: \<open>delete_all\<close> raises \<open>e\<close> exactly when \<open>table.drop\<close>
  raises \<open>e\<close>, or \<open>table.drop\<close> returns and \<open>table.create\<close> raises \<open>e\<close>;
  \<open>query\<close> returns or raises exactly what \<open>read_sql\<close> (no filter) or
  \<open>read_sql_query\<close> (a filter) returns or raises, the generator being the library's
  own, so that a failure while chunks are produced is the library's too. In each case
  the exception is the backend's, not a \<open>DaoError\<close> around it; \<open>save\<close> alone raises
  \<open>DaoError e\<close> for the backend's \<open>e\<close>, which is never \<open>e\<close> itself.
\<close>

theorem delete_all_and_query_raise_unwrapped:
  "((SqlRepository_delete_all be self s = (Inl e, self', s')) \<longleftrightarrow>
     (self' = self \<and>
      (table_drop be (slot_table self) (slot_engine self) s = (Inl e, s') \<or>
       (\<exists>s1. table_drop be (slot_table self) (slot_engine self) s = (Inr (), s1) \<and>
             table_create be (slot_table self) (slot_engine self) s1 = (Inl e, s'))))) \<and>
   ((SqlRepository_query be self None k s = (r, self', s')) \<longleftrightarrow>
     (self' = self \<and> read_sql be (slot_tablename self) (slot_engine self) k s = (r, s'))) \<and>
   ((SqlRepository_query be self (Some q) k s = (r, self', s')) \<longleftrightarrow>
     (self' = self \<and> read_sql_query be q (slot_engine self) k s = (r, s'))) \<and>
   ((SqlRepository_save be self payload s = (Inl e, self', s')) \<longleftrightarrow>
     (self' = self \<and>
      (\<exists>e'. e = DaoError e' \<and>
           to_sql be payload (slot_tablename self) (slot_engine self) s = (Inl e', s')))) \<and>
   DaoError e \<noteq> e"
  by (simp only: delete_all_cases query_None query_Some save_cases DaoError_neq
      not_False_eq_True simp_thms)

theorem delete_all_and_query_raise_unwrapped_witness:
  "SqlRepository_delete_all (sqlite no_queries) ctd_repo empty_world =
     (Inl (OperationalError ''no such table''), ctd_repo, empty_world) \<and>
   SqlRepository_query (sqlite no_queries) ctd_repo None 2 empty_world =
     (Inl (OperationalError ''syntax error''), ctd_repo, empty_world) \<and>
   SqlRepository_query (sqlite no_queries) ctd_repo (Some ''SELECT 1'') 2 empty_world =
     (Inl (OperationalError ''syntax error''), ctd_repo, empty_world)"
proof -
  note t = delete_all_and_query_raise_unwrapped [where be = "sqlite no_queries"
      and self = ctd_repo and self' = ctd_repo and s = empty_world and s' = empty_world
      and k = 2 and q = "''SELECT 1''"]
  have d: "table_drop (sqlite no_queries) (slot_table ctd_repo) (slot_engine ctd_repo)
      empty_world = (Inl (OperationalError ''no such table''), empty_world)"
    by (simp add: sqlite_fields sqlite_table_drop_def empty_world_def)
  have r: "read_sql (sqlite no_queries) (slot_tablename ctd_repo) (slot_engine ctd_repo) 2
      empty_world = (Inl (OperationalError ''syntax error''), empty_world)"
    by (simp add: sqlite_fields sqlite_read_sql_def empty_world_def)
  have q: "read_sql_query (sqlite no_queries) ''SELECT 1'' (slot_engine ctd_repo) 2
      empty_world = (Inl (OperationalError ''syntax error''), empty_world)"
    by (simp add: sqlite_fields sqlite_read_sql_query_def no_queries_def)
  from t [THEN conjunct1, of "OperationalError ''no such table''"] d
  have 1: "SqlRepository_delete_all (sqlite no_queries) ctd_repo empty_world =
     (Inl (OperationalError ''no such table''), ctd_repo, empty_world)" by simp
  from t [THEN conjunct2, THEN conjunct1, of "Inl (OperationalError ''syntax error'')"] r
  have 2: "SqlRepository_query (sqlite no_queries) ctd_repo None 2 empty_world =
     (Inl (OperationalError ''syntax error''), ctd_repo, empty_world)" by simp
  from t [THEN conjunct2, THEN conjunct2, THEN conjunct1,
      of "Inl (OperationalError ''syntax error'')"] q
  have 3: "SqlRepository_query (sqlite no_queries) ctd_repo (Some ''SELECT 1'') 2 empty_world =
     (Inl (OperationalError ''syntax error''), ctd_repo, empty_world)" by simp
  from 1 2 3 show ?thesis by blast
qed




text \<open>
  C9. As stated, the property fails in its first part: the constructor does not load
  credentials. The instance constructed with a credentials path holds none, and the
  result is the same for another path.
\<close>

theorem gbq_init_holds_no_credentials:
  "GbqRepository_init ''genie'' ''test.table'' CTD_DAO_TABLE ''credentials.json'' empty_world
     = (Inr \<lparr>slot_tablename = ''test.table'', slot_table = CTD_DAO_TABLE,
             slot_proj = Some ''genie'', slot_credentials = (None :: string option)\<rparr>,
        empty_world) \<and>
   (GbqRepository_init ''genie'' ''test.table'' CTD_DAO_TABLE ''credentials.json'' empty_world
      :: (exc + string GbqRepository) \<times> scalar world)
     = GbqRepository_init ''genie'' ''test.table'' CTD_DAO_TABLE ''other.json'' empty_world"
  by (simp add: GbqRepository_init_def)

text \<open>
  C9, amended. Constructing a warehouse repository stores the table name, the schema
  object and the project on the instance and nothing else: the credentials slot stays
  unassigned whatever the credentials path is, and the state outside the instance (the
  warehouse, the \<open>pandas_gbq\<close> context) is left as it was, so no table is created.
\<close>

theorem gbq_init_binds_names_only:
  "GbqRepository_init db_loc n table credentials_path s =
     (Inr \<lparr>slot_tablename = n, slot_table = table, slot_proj = Some db_loc,
           slot_credentials = None\<rparr>, s)"
  by (simp add: GbqRepository_init_def)

text \<open>
  C10. The \<open>tablename\<close> property of an instance, relational or warehouse, is the
  table name given to the constructor, and its schema object is the one given; no call
  of \<open>save\<close>, \<open>delete_all\<close> or \<open>query\<close>, returning or raising, changes the
  table name or the schema object of the instance.
\<close>

theorem tablename_and_schema_fixed:
  "(\<forall>self s'. SqlRepository_init be db_loc n table s = (Inr self, s') \<longrightarrow>
       tablename self = n \<and> slot_table self = table) \<and>
   (\<exists>g. GbqRepository_init db_loc n table credentials_path t = (Inr g, t) \<and>
       tablename g = n \<and> slot_table g = table) \<and>
   same_name_and_schema (fst (snd (SqlRepository_save be r payload s))) r \<and>
   same_name_and_schema (fst (snd (SqlRepository_delete_all be r s))) r \<and>
   same_name_and_schema (fst (snd (SqlRepository_query be r query k s))) r \<and>
   same_name_and_schema (fst (snd (GbqRepository_save g payload t))) g \<and>
   same_name_and_schema (fst (snd (GbqRepository_delete_all g t))) g \<and>
   same_name_and_schema (fst (snd (GbqRepository_query g query k t))) g"
proof -
  have "\<forall>self s'. SqlRepository_init be db_loc n table s = (Inr self, s') \<longrightarrow>
       tablename self = n \<and> slot_table self = table"
    using init_cases by (fastforce simp: tablename_def)
  moreover have "\<exists>g. GbqRepository_init db_loc n table credentials_path t = (Inr g, t) \<and>
       tablename g = n \<and> slot_table g = table"
    by (simp add: GbqRepository_init_def tablename_def)
  moreover have "same_name_and_schema (fst (snd (SqlRepository_save be r payload s))) r"
    by (simp only: self_save) (simp add: same_name_and_schema_def)
  moreover have "same_name_and_schema (fst (snd (SqlRepository_delete_all be r s))) r"
    by (simp only: self_delete_all) (simp add: same_name_and_schema_def)
  moreover have "same_name_and_schema (fst (snd (SqlRepository_query be r query k s))) r"
    by (simp only: self_query) (simp add: same_name_and_schema_def)
  moreover have "same_name_and_schema (fst (snd (GbqRepository_save g payload t))) g"
    by (simp add: GbqRepository_save_def same_name_and_schema_def)
  moreover have "same_name_and_schema (fst (snd (GbqRepository_delete_all g t))) g"
    by (simp add: GbqRepository_delete_all_def same_name_and_schema_def)
  moreover have "same_name_and_schema (fst (snd (GbqRepository_query g query k t))) g"
    by (simp add: GbqRepository_query_def same_name_and_schema_def)
  ultimately show ?thesis by blast
qed

theorem tablename_and_schema_fixed_witness:
  "SqlRepository_init (sqlite no_queries) ''sqlite://'' CTD_TABLE_NAME CTD_DAO_TABLE empty_world
     = (Inr ctd_repo, ctd_world) \<and>
   tablename ctd_repo = CTD_TABLE_NAME \<and> slot_table ctd_repo = CTD_DAO_TABLE"
proof -
  note t = tablename_and_schema_fixed [where be = "sqlite no_queries"
      and db_loc = "''sqlite://''" and n = CTD_TABLE_NAME and table = CTD_DAO_TABLE
      and s = empty_world, THEN conjunct1, rule_format, OF init_ctd]
  with init_ctd show ?thesis by simp
qed

end
